theory Spec2Isabelle
  imports Complex_Main
begin

section \<open>Data model of the Steam 2FA widget\<close>

text \<open>
  The component \<open>App\<close> keeps its state in React \<open>useState\<close> cells and two \<open>useRef\<close>
  cells. Everything the handlers touch is collected in the record \<open>App\<close> below, together
  with the part of the JavaScript runtime the handlers talk to: the table of pending
  timers (\<open>setInterval\<close>/\<open>setTimeout\<close>), the pending promises of \<open>simulateSearch\<close> and
  the \<open>localStorage\<close> slot \<open>steam-2fa-history\<close>.

  Times are \<open>Date.now()\<close> values, milliseconds as \<open>int\<close>. JavaScript numbers are IEEE
  doubles; the model computes the progress percentage with exact rationals.
\<close>

datatype AppState = IDLE | SEARCHING | FOUND | SUCCESS | ERROR

datatype req_status = success | error

record CodeRequest =
  id_field :: string
  code :: string
  timestamp :: int
  status :: req_status
  searchTime :: int

text \<open>
  The notification texts of the source contain non-ASCII letters; the model names the
  five values the \<open>notification\<close> cell ever holds:
  \<^item> \<open>NoMessage\<close>: the empty string;
  \<^item> \<open>RateLimitedMsg\<close>: "Aguarde 1 minuto antes de solicitar novamente";
  \<^item> \<open>TimeoutMsg\<close>: "Timeout: Codigo nao encontrado em 45 segundos";
  \<^item> \<open>FoundMsg\<close>: "Codigo encontrado com sucesso!";
  \<^item> \<open>LookupErrorMsg\<close>: "Erro: Nao foi possivel encontrar o codigo".
\<close>

datatype message = NoMessage | RateLimitedMsg | TimeoutMsg | FoundMsg | LookupErrorMsg

text \<open>
  The callbacks handed to the timer API by the source:
  \<^item> \<open>Tick startTime\<close>: the \<open>setInterval\<close> callback of \<open>requestSteamCode\<close> (every 100 ms),
    closed over its \<open>startTime\<close>;
  \<^item> \<open>BudgetGuard\<close>: the \<open>setTimeout\<close> callback of 45000 ms;
  \<^item> \<open>AutoExpire\<close>: the \<open>setTimeout\<close> callback of 30000 ms that sets \<open>SUCCESS\<close>;
  \<^item> \<open>ClearNotification\<close>: the \<open>setTimeout\<close> callback of 3000 ms of \<open>showNotification\<close>.
  A pending timer is its id, its callback and the time before which it cannot fire.
\<close>

datatype callback = Tick int | BudgetGuard | AutoExpire | ClearNotification

type_synonym timer = "nat \<times> callback \<times> int"

datatype js_error = SyntaxError | LookupError

text \<open>
  What \<open>localStorage.getItem\<close> returns is a string or \<open>null\<close>. The model keeps of a
  stored string only what \<open>JSON.parse\<close> makes of it: \<open>Encoded h\<close> is the text
  \<open>JSON.stringify h\<close> of a history, \<open>Unparsable t\<close> is a text \<open>t\<close> that \<open>JSON.parse\<close>
  rejects (the empty string among them). Texts that parse to something that is not an
  array of entries are outside the model.
\<close>

datatype stored = Unparsable string | Encoded "CodeRequest list"

record App =
  state :: AppState
  currentCode :: string
  progress :: rat
  timeRemaining :: int
  history :: "CodeRequest list"
  showHistory :: bool
  notification :: message
  lastRequestTime :: int
  intervalRef :: "nat option"
  timeoutRef :: "nat option"
  timers :: "timer list"
  nextTimer :: nat
  lookups :: "(nat \<times> int) list"
  nextLookup :: nat
  storage :: "stored option"

section \<open>The simulated lookup\<close>

definition chars :: string where
  "chars = ''ABCDEFGHIJKLMNOPQRSTUVWXYZ0123456789''"

definition charAt :: "string \<Rightarrow> int \<Rightarrow> string" where
  "charAt s i = (if 0 \<le> i \<and> i < int (length s) then [s ! nat i] else [])"

text \<open>
  \<open>generateRandomCode\<close> draws five times from \<open>Math.random()\<close>; the draws are the
  argument. A list shorter than five stands for draws that were never made and yields a
  shorter string; the runtime always supplies five.
\<close>

definition generateRandomCode :: "rat list \<Rightarrow> string" where
  "generateRandomCode rs =
     concat (map (\<lambda>r. charAt chars \<lfloor>r * of_nat (length chars)\<rfloor>) (take 5 rs))"

text \<open>
  \<open>simulateSearch\<close> with its draws: \<open>r1\<close> fixes the delay, \<open>r2\<close> decides between a result
  and the thrown error, \<open>rs\<close> feed \<open>generateRandomCode\<close>. \<open>Math.round\<close> rounds half up.
\<close>

definition searchDelay :: "rat \<Rightarrow> rat" where
  "searchDelay r1 = r1 * 6000 + 2000"

definition simulateSearch :: "rat \<Rightarrow> rat \<Rightarrow> rat list \<Rightarrow> js_error + (string \<times> int)" where
  "simulateSearch r1 r2 rs =
     (if r2 < 95 / 100 then Inr (generateRandomCode rs, \<lfloor>searchDelay r1 + 1 / 2\<rfloor>)
      else Inl LookupError)"

section \<open>Timers, notifications and the history\<close>

definition setTimer :: "callback \<Rightarrow> int \<Rightarrow> App \<Rightarrow> App" where
  "setTimer cb d s =
     s\<lparr>timers := timers s @ [(nextTimer s, cb, d)], nextTimer := Suc (nextTimer s)\<rparr>"

definition clearTimer :: "nat option \<Rightarrow> App \<Rightarrow> App" where
  "clearTimer r s =
     (case r of None \<Rightarrow> s
      | Some i \<Rightarrow> s\<lparr>timers := filter (\<lambda>t. fst t \<noteq> i) (timers s)\<rparr>)"

definition showNotification :: "message \<Rightarrow> int \<Rightarrow> App \<Rightarrow> App" where
  "showNotification m now s = setTimer ClearNotification (now + 3000) (s\<lparr>notification := m\<rparr>)"

definition canRequestCode :: "int \<Rightarrow> App \<Rightarrow> bool" where
  "canRequestCode now s \<longleftrightarrow> now - lastRequestTime s > 60000"

text \<open>\<open>Date.now().toString()\<close>: the decimal digits of the time.\<close>

function digits :: "nat \<Rightarrow> string" where
  "digits n = (if n < 10 then [char_of (48 + n)]
               else digits (n div 10) @ [char_of (48 + n mod 10)])"
  by pat_completeness auto
termination
  by (relation "measure id") auto

declare digits.simps [simp del]

definition toString :: "int \<Rightarrow> string" where
  "toString n = (if n < 0 then CHR ''-'' # digits (nat (- n)) else digits (nat n))"

text \<open>The updater \<open>prev => [newRequest, ...prev.slice(0, 9)]\<close> of every \<open>setHistory\<close> call.\<close>

definition prepend :: "CodeRequest \<Rightarrow> CodeRequest list \<Rightarrow> CodeRequest list" where
  "prepend newRequest prev = newRequest # take 9 prev"

text \<open>
  The effect on \<open>[history]\<close>: after a render in which \<open>history\<close> changed, a non-empty
  history is written to the storage slot.
\<close>

definition saveHistory :: "App \<Rightarrow> App" where
  "saveHistory s =
     (if length (history s) > 0 then s\<lparr>storage := Some (Encoded (history s))\<rparr> else s)"

definition setHistory :: "(CodeRequest list \<Rightarrow> CodeRequest list) \<Rightarrow> App \<Rightarrow> App" where
  "setHistory f s = saveHistory (s\<lparr>history := f (history s)\<rparr>)"

section \<open>The handlers of \<open>App\<close>\<close>

text \<open>
  Every handler is a function from the state it finds to the state it leaves; the time
  it reads from \<open>Date.now()\<close> is an argument. A handler reads \<open>state\<close> and
  \<open>lastRequestTime\<close> from the last render; the model takes every event to find the
  component rendered with the current values. The refs and the functional updates of
  \<open>setHistory\<close> always see the current values.

  \<open>requestSteamCode\<close> up to its \<open>await\<close>. The three reads of \<open>Date.now()\<close> in this
  synchronous stretch are taken to return the same \<open>now\<close>.
\<close>

definition requestSteamCode :: "int \<Rightarrow> App \<Rightarrow> App" where
  "requestSteamCode now s =
     (if \<not> canRequestCode now s then showNotification RateLimitedMsg now s
      else if state s = SEARCHING then s
      else
        let s1 = s\<lparr>state := SEARCHING, currentCode := [], progress := 0,
                   timeRemaining := 45, lastRequestTime := now\<rparr>;
            s2 = (setTimer (Tick now) (now + 100) s1)\<lparr>intervalRef := Some (nextTimer s1)\<rparr>;
            s3 = (setTimer BudgetGuard (now + 45000) s2)\<lparr>timeoutRef := Some (nextTimer s2)\<rparr>
        in s3\<lparr>lookups := lookups s3 @ [(nextLookup s3, now)],
               nextLookup := Suc (nextLookup s3)\<rparr>)"

text \<open>The \<open>setInterval\<close> callback.\<close>

definition requestSteamCode_tick :: "int \<Rightarrow> int \<Rightarrow> App \<Rightarrow> App" where
  "requestSteamCode_tick startTime now s =
     (let elapsed = now - startTime;
          progressPercent = min (of_int elapsed / 45000 * 100) (100 :: rat);
          remaining = max (45 - elapsed div 1000) 0;
          s1 = s\<lparr>progress := progressPercent, timeRemaining := remaining\<rparr>
      in if remaining \<le> 0 then
           let s2 = clearTimer (intervalRef s1) s1;
               s3 = s2\<lparr>state := ERROR\<rparr>;
               s4 = showNotification TimeoutMsg now s3;
               newRequest = \<lparr>id_field = toString now, code = ''TIMEOUT'', timestamp = now,
                             status = error, searchTime = 45000\<rparr>
           in setHistory (prepend newRequest) s4
         else s1)"

text \<open>The \<open>setTimeout\<close> callback of 45000 ms.\<close>

definition requestSteamCode_timeout :: "App \<Rightarrow> App" where
  "requestSteamCode_timeout s = (clearTimer (intervalRef s) s)\<lparr>state := ERROR\<rparr>"

text \<open>The \<open>setTimeout\<close> callback of 30000 ms.\<close>

definition requestSteamCode_expire :: "App \<Rightarrow> App" where
  "requestSteamCode_expire s = s\<lparr>state := SUCCESS\<rparr>"

text \<open>The rest of the \<open>try\<close> block, run when the promise of \<open>simulateSearch\<close> resolves.\<close>

definition requestSteamCode_resolved :: "string \<times> int \<Rightarrow> int \<Rightarrow> App \<Rightarrow> App" where
  "requestSteamCode_resolved result now s =
     (let s1 = clearTimer (intervalRef s) s;
          s2 = clearTimer (timeoutRef s1) s1;
          s3 = s2\<lparr>currentCode := fst result, state := FOUND, progress := 100\<rparr>;
          s4 = showNotification FoundMsg now s3;
          newRequest = \<lparr>id_field = toString now, code = fst result, timestamp = now,
                        status = success, searchTime = snd result\<rparr>;
          s5 = setHistory (prepend newRequest) s4
      in setTimer AutoExpire (now + 30000) s5)"

text \<open>The \<open>catch\<close> block, run when the promise rejects.\<close>

definition requestSteamCode_rejected :: "int \<Rightarrow> App \<Rightarrow> App" where
  "requestSteamCode_rejected now s =
     (let s1 = clearTimer (intervalRef s) s;
          s2 = clearTimer (timeoutRef s1) s1;
          s3 = s2\<lparr>state := ERROR\<rparr>;
          s4 = showNotification LookupErrorMsg now s3;
          newRequest = \<lparr>id_field = toString now, code = ''ERROR'', timestamp = now,
                        status = error, searchTime = 0\<rparr>
      in setHistory (prepend newRequest) s4)"

definition resetInterface :: "App \<Rightarrow> App" where
  "resetInterface s =
     (let s1 = s\<lparr>state := IDLE, currentCode := [], progress := 0, timeRemaining := 0\<rparr>;
          s2 = clearTimer (intervalRef s1) s1
      in clearTimer (timeoutRef s2) s2)"

section \<open>Startup\<close>

text \<open>
  The initial values of the \<open>useState\<close> and \<open>useRef\<close> cells, with no timer and no lookup
  pending, over the storage slot as the browser holds it.
\<close>

definition initialApp :: "stored option \<Rightarrow> App" where
  "initialApp st =
     \<lparr>state = IDLE, currentCode = [], progress = 0, timeRemaining = 0, history = [],
      showHistory = False, notification = NoMessage, lastRequestTime = 0,
      intervalRef = None, timeoutRef = None, timers = [], nextTimer = 1,
      lookups = [], nextLookup = 0, storage = st\<rparr>"

fun JSON_parse :: "stored \<Rightarrow> js_error + CodeRequest list" where
  "JSON_parse (Unparsable t) = Inl SyntaxError"
| "JSON_parse (Encoded h) = Inr h"

text \<open>
  The mount effect. \<open>if (savedHistory)\<close> is false for \<open>null\<close> and for the empty string.
  \<open>JSON.parse\<close> is called outside any \<open>try\<close>: its exception leaves the effect.
  \<open>new Date(item.timestamp)\<close> gives back the time that was serialised.
\<close>

definition loadHistory :: "App \<Rightarrow> js_error + App" where
  "loadHistory s =
     (case storage s of
        None \<Rightarrow> Inr s
      | Some savedHistory \<Rightarrow>
          if savedHistory = Unparsable [] then Inr s
          else (case JSON_parse savedHistory of
                  Inl e \<Rightarrow> Inl e
                | Inr parsed \<Rightarrow>
                    Inr (setHistory
                          (\<lambda>_. map (\<lambda>item. item\<lparr>timestamp := timestamp item\<rparr>) parsed) s)))"

section \<open>The event loop\<close>

text \<open>
  What the runtime and the user can do to a mounted \<open>App\<close>:
  \<^item> \<open>ClickRequest now\<close>, \<open>ClickReset\<close>, \<open>ToggleHistory\<close>: the three controls;
  \<^item> \<open>Fire i now\<close>: the runtime runs the callback of timer \<open>i\<close>;
  \<^item> \<open>Settle l r1 r2 rs now\<close>: the promise of lookup \<open>l\<close> settles, \<open>simulateSearch\<close>
    having drawn \<open>r1\<close>, \<open>r2\<close> and \<open>rs\<close> from \<open>Math.random()\<close>.
  A timer fires only while pending and no earlier than its delay allows; an interval is
  due again 100 ms after it was last due, at the earliest. A lookup settles only while
  pending, no earlier than its delay, with draws from the unit interval. An event that
  cannot happen leaves the state as it is. Nothing bounds how late a timer or a lookup
  may be: a suspended tab delays them all.
\<close>

datatype event =
    ClickRequest int
  | ClickReset
  | ToggleHistory
  | Fire nat int
  | Settle nat rat rat "rat list" int

definition fire :: "nat \<Rightarrow> int \<Rightarrow> App \<Rightarrow> App" where
  "fire i now s =
     (case map_of (timers s) i of
        None \<Rightarrow> s
      | Some (cb, d) \<Rightarrow>
          if now < d then s
          else (case cb of
                  Tick startTime \<Rightarrow>
                    requestSteamCode_tick startTime now
                      (s\<lparr>timers := map (\<lambda>t. if fst t = i then (i, cb, d + 100) else t)
                                      (timers s)\<rparr>)
                | BudgetGuard \<Rightarrow> requestSteamCode_timeout (clearTimer (Some i) s)
                | AutoExpire \<Rightarrow> requestSteamCode_expire (clearTimer (Some i) s)
                | ClearNotification \<Rightarrow> (clearTimer (Some i) s)\<lparr>notification := NoMessage\<rparr>))"

definition unit_draw :: "rat \<Rightarrow> bool" where
  "unit_draw r \<longleftrightarrow> 0 \<le> r \<and> r < 1"

definition settle :: "nat \<Rightarrow> rat \<Rightarrow> rat \<Rightarrow> rat list \<Rightarrow> int \<Rightarrow> App \<Rightarrow> App" where
  "settle l r1 r2 rs now s =
     (case map_of (lookups s) l of
        None \<Rightarrow> s
      | Some started \<Rightarrow>
          if \<not> (unit_draw r1 \<and> unit_draw r2 \<and> length rs = 5 \<and> list_all unit_draw rs)
             \<or> of_int (now - started) < searchDelay r1
          then s
          else
            let s1 = s\<lparr>lookups := filter (\<lambda>p. fst p \<noteq> l) (lookups s)\<rparr>
            in (case simulateSearch r1 r2 rs of
                  Inr result \<Rightarrow> requestSteamCode_resolved result now s1
                | Inl e \<Rightarrow> requestSteamCode_rejected now s1))"

fun step :: "event \<Rightarrow> App \<Rightarrow> App" where
  "step (ClickRequest now) s = requestSteamCode now s"
| "step ClickReset s = resetInterface s"
| "step ToggleHistory s = s\<lparr>showHistory := \<not> showHistory s\<rparr>"
| "step (Fire i now) s = fire i now s"
| "step (Settle l r1 r2 rs now) s = settle l r1 r2 rs now s"

definition run :: "event list \<Rightarrow> App \<Rightarrow> App" where
  "run es s = foldl (\<lambda>a e. step e a) s es"

text \<open>
  The fields a refused request may touch are the notification and the timer table;
  \<open>core\<close> forgets them, \<open>onlyNotified\<close> says that nothing else differs and that every
  timer added is one that clears a notification.
\<close>

definition core :: "App \<Rightarrow> App" where
  "core s = s\<lparr>notification := NoMessage, timers := [], nextTimer := 0\<rparr>"

definition onlyNotified :: "App \<Rightarrow> App \<Rightarrow> bool" where
  "onlyNotified s s' \<longleftrightarrow>
     core s' = core s \<and>
     take (length (timers s)) (timers s') = timers s \<and>
     list_all (\<lambda>t. fst (snd t) = ClearNotification) (drop (length (timers s)) (timers s'))"



section \<open>Basic facts\<close>

lemma clearTimer_eq:
  "clearTimer r s =
     s\<lparr>timers := (case r of None \<Rightarrow> timers s
                    | Some i \<Rightarrow> filter (\<lambda>t. fst t \<noteq> i) (timers s))\<rparr>"
  by (cases r) (simp_all add: clearTimer_def)

lemma saveHistory_eq:
  "saveHistory s =
     s\<lparr>storage := (if length (history s) > 0 then Some (Encoded (history s)) else storage s)\<rparr>"
  by (simp add: saveHistory_def)

lemmas prim_eqs = setTimer_def clearTimer_eq showNotification_def saveHistory_eq
  setHistory_def prepend_def canRequestCode_def


lemmas handler_defs = requestSteamCode_def requestSteamCode_tick_def
  requestSteamCode_timeout_def requestSteamCode_expire_def requestSteamCode_resolved_def
  requestSteamCode_rejected_def resetInterface_def

lemma onlyNotified_iff:
  "onlyNotified s s' \<longleftrightarrow>
     core s' = core s \<and>
     (\<exists>ns. timers s' = timers s @ ns \<and> list_all (\<lambda>t. fst (snd t) = ClearNotification) ns)"
proof
  assume o: "onlyNotified s s'"
  then have "timers s' = timers s @ drop (length (timers s)) (timers s')"
    by (metis onlyNotified_def append_take_drop_id)
  with o show "core s' = core s \<and>
     (\<exists>ns. timers s' = timers s @ ns \<and> list_all (\<lambda>t. fst (snd t) = ClearNotification) ns)"
    unfolding onlyNotified_def by blast
next
  assume "core s' = core s \<and>
     (\<exists>ns. timers s' = timers s @ ns \<and> list_all (\<lambda>t. fst (snd t) = ClearNotification) ns)"
  then show "onlyNotified s s'"
    by (auto simp: onlyNotified_def)
qed

lemma onlyNotified_refl: "onlyNotified s s"
  by (simp add: onlyNotified_def)

lemma onlyNotified_trans:
  assumes "onlyNotified a b" and "onlyNotified b c"
  shows "onlyNotified a c"
proof -
  from assms obtain ns ms where
    n: "timers b = timers a @ ns" "list_all (\<lambda>t. fst (snd t) = ClearNotification) ns" and
    m: "timers c = timers b @ ms" "list_all (\<lambda>t. fst (snd t) = ClearNotification) ms"
    by (auto simp: onlyNotified_iff)
  have "timers c = timers a @ (ns @ ms)"
    using n m by simp
  moreover have "list_all (\<lambda>t. fst (snd t) = ClearNotification) (ns @ ms)"
    using n m by simp
  moreover have "core c = core a"
    using assms by (simp add: onlyNotified_def)
  ultimately show ?thesis
    unfolding onlyNotified_iff by blast
qed

lemma core_fields:
  assumes "core s' = core s"
  shows "state s' = state s" "currentCode s' = currentCode s" "progress s' = progress s"
    "timeRemaining s' = timeRemaining s" "history s' = history s"
    "showHistory s' = showHistory s" "lastRequestTime s' = lastRequestTime s"
    "intervalRef s' = intervalRef s" "timeoutRef s' = timeoutRef s"
    "lookups s' = lookups s" "nextLookup s' = nextLookup s" "storage s' = storage s"
proof -
  have "state (core s') = state (core s)" using assms by simp
  then show "state s' = state s" by (simp add: core_def)
  have "currentCode (core s') = currentCode (core s)" using assms by simp
  then show "currentCode s' = currentCode s" by (simp add: core_def)
  have "progress (core s') = progress (core s)" using assms by simp
  then show "progress s' = progress s" by (simp add: core_def)
  have "timeRemaining (core s') = timeRemaining (core s)" using assms by simp
  then show "timeRemaining s' = timeRemaining s" by (simp add: core_def)
  have "history (core s') = history (core s)" using assms by simp
  then show "history s' = history s" by (simp add: core_def)
  have "showHistory (core s') = showHistory (core s)" using assms by simp
  then show "showHistory s' = showHistory s" by (simp add: core_def)
  have "lastRequestTime (core s') = lastRequestTime (core s)" using assms by simp
  then show "lastRequestTime s' = lastRequestTime s" by (simp add: core_def)
  have "intervalRef (core s') = intervalRef (core s)" using assms by simp
  then show "intervalRef s' = intervalRef s" by (simp add: core_def)
  have "timeoutRef (core s') = timeoutRef (core s)" using assms by simp
  then show "timeoutRef s' = timeoutRef s" by (simp add: core_def)
  have "lookups (core s') = lookups (core s)" using assms by simp
  then show "lookups s' = lookups s" by (simp add: core_def)
  have "nextLookup (core s') = nextLookup (core s)" using assms by simp
  then show "nextLookup s' = nextLookup s" by (simp add: core_def)
  have "storage (core s') = storage (core s)" using assms by simp
  then show "storage s' = storage s" by (simp add: core_def)
qed

lemma refused_request:
  "\<not> canRequestCode now s \<Longrightarrow>
     onlyNotified s (requestSteamCode now s) \<and> notification (requestSteamCode now s) = RateLimitedMsg"
  by (simp add: requestSteamCode_def onlyNotified_def core_def showNotification_def setTimer_def)

lemma onlyNotified_request_timers:
  assumes "onlyNotified s s'"
  shows "filter (\<lambda>t. fst (snd t) \<noteq> ClearNotification) (timers s') =
         filter (\<lambda>t. fst (snd t) \<noteq> ClearNotification) (timers s)"
proof -
  from assms obtain ns where
    "timers s' = timers s @ ns" "list_all (\<lambda>t. fst (snd t) = ClearNotification) ns"
    by (auto simp: onlyNotified_iff)
  then show ?thesis
    by (simp add: list_all_iff filter_empty_conv)
qed

lemma refused_requests:
  "\<forall>now \<in> set ts. now - lastRequestTime s < 60000 \<Longrightarrow>
   onlyNotified s (foldl (\<lambda>a now. requestSteamCode now a) s ts) \<and>
   (ts \<noteq> [] \<longrightarrow> notification (foldl (\<lambda>a now. requestSteamCode now a) s ts) = RateLimitedMsg)"
proof (induction ts rule: rev_induct)
  case Nil
  show ?case by (simp add: onlyNotified_refl)
next
  case (snoc t ts)
  let ?a = "foldl (\<lambda>a now. requestSteamCode now a) s ts"
  from snoc have a: "onlyNotified s ?a" by simp
  then have c: "core ?a = core s"
    by (simp add: onlyNotified_def)
  have "lastRequestTime ?a = lastRequestTime s"
    by (rule core_fields [OF c])
  moreover from snoc.prems have "t - lastRequestTime s < 60000" by simp
  ultimately have "\<not> canRequestCode t ?a"
    by (simp add: canRequestCode_def)
  from refused_request [OF this] a show ?case
    by (auto intro: onlyNotified_trans)
qed





lemma early_tick:
  assumes "now - startTime < 45000"
  shows "requestSteamCode_tick startTime now s =
           s\<lparr>progress := min (of_int (now - startTime) / 45000 * 100) 100,
             timeRemaining := max (45 - (now - startTime) div 1000) 0\<rparr>"
proof -
  from assms have "(now - startTime) div 1000 < 45" by arith
  then have "\<not> max (45 - (now - startTime) div 1000) 0 \<le> 0" by simp
  then show ?thesis
    by (simp add: requestSteamCode_tick_def Let_def)
qed

lemma early_ticks:
  "\<forall>t \<in> set ts. t - t0 < 45000 \<Longrightarrow>
   \<exists>p r. foldl (\<lambda>a t. requestSteamCode_tick t0 t a) s ts = s\<lparr>progress := p, timeRemaining := r\<rparr>"
proof (induction ts rule: rev_induct)
  case Nil
  show ?case
    by (rule exI [of _ "progress s"], rule exI [of _ "timeRemaining s"]) simp
next
  case (snoc t ts)
  then obtain p r where
    e: "foldl (\<lambda>a t. requestSteamCode_tick t0 t a) s ts = s\<lparr>progress := p, timeRemaining := r\<rparr>"
    by auto
  from snoc.prems have "t - t0 < 45000" by simp
  then have "foldl (\<lambda>a t. requestSteamCode_tick t0 t a) s (ts @ [t]) =
      s\<lparr>progress := min (of_int (t - t0) / 45000 * 100) 100,
        timeRemaining := max (45 - (t - t0) div 1000) 0\<rparr>"
    by (simp add: e early_tick)
  then show ?case by (intro exI)
qed

lemma resolved_outcome:
  "state (requestSteamCode_resolved res now s) = FOUND \<and>
   progress (requestSteamCode_resolved res now s) = 100 \<and>
   currentCode (requestSteamCode_resolved res now s) = fst res \<and>
   history (requestSteamCode_resolved res now s) =
     \<lparr>id_field = toString now, code = fst res, timestamp = now, status = success,
      searchTime = snd res\<rparr> # take 9 (history s)"
  by (simp add: requestSteamCode_resolved_def prim_eqs Let_def)

lemma rejected_outcome:
  "state (requestSteamCode_rejected now s) = ERROR \<and>
   history (requestSteamCode_rejected now s) =
     \<lparr>id_field = toString now, code = ''ERROR'', timestamp = now, status = error,
      searchTime = 0\<rparr> # take 9 (history s)"
  by (simp add: requestSteamCode_rejected_def prim_eqs Let_def)

lemma accepted_request:
  assumes "canRequestCode t0 s" and "state s \<noteq> SEARCHING"
  shows "state (requestSteamCode t0 s) = SEARCHING" "history (requestSteamCode t0 s) = history s"
    "progress (requestSteamCode t0 s) = 0" "timeRemaining (requestSteamCode t0 s) = 45"
    "lastRequestTime (requestSteamCode t0 s) = t0" "currentCode (requestSteamCode t0 s) = []"
  using assms by (simp_all add: requestSteamCode_def prim_eqs Let_def)

section \<open>Refused requests\<close>

text \<open>
  Claim C5. Any number of calls of \<open>requestSteamCode\<close>, each made less than 60 seconds
  after the last issuance time, leave the lifecycle state, the current code, the progress,
  the remaining time, the issuance time, the history and its stored copy as they were,
  start no lookup and no timer of a request; all that changes is the notification, set to
  the refusal message, and the timers that clear it.
\<close>

theorem rate_limited_requests_only_notify:
  assumes "\<forall>now \<in> set ts. now - lastRequestTime s < 60000"
  shows "let s' = foldl (\<lambda>a now. requestSteamCode now a) s ts in
           state s' = state s \<and> currentCode s' = currentCode s \<and> progress s' = progress s \<and>
           timeRemaining s' = timeRemaining s \<and> lastRequestTime s' = lastRequestTime s \<and>
           history s' = history s \<and> storage s' = storage s \<and>
           lookups s' = lookups s \<and> nextLookup s' = nextLookup s \<and>
           intervalRef s' = intervalRef s \<and> timeoutRef s' = timeoutRef s \<and>
           filter (\<lambda>t. fst (snd t) \<noteq> ClearNotification) (timers s') =
             filter (\<lambda>t. fst (snd t) \<noteq> ClearNotification) (timers s) \<and>
           onlyNotified s s' \<and> (ts \<noteq> [] \<longrightarrow> notification s' = RateLimitedMsg)"
proof -
  let ?s' = "foldl (\<lambda>a now. requestSteamCode now a) s ts"
  from refused_requests [OF assms]
  have n: "onlyNotified s ?s'" and m: "ts \<noteq> [] \<longrightarrow> notification ?s' = RateLimitedMsg"
    by simp_all
  from n have c: "core ?s' = core s" by (simp add: onlyNotified_def)
  show ?thesis
    unfolding Let_def
    using core_fields [OF c] onlyNotified_request_timers [OF n] n m by simp
qed

theorem rate_limited_requests_only_notify_witness:
  "100500 - lastRequestTime (requestSteamCode 100000 (initialApp None)) < 60000 \<and>
   159999 - lastRequestTime (requestSteamCode 100000 (initialApp None)) < 60000 \<and>
   state (foldl (\<lambda>a now. requestSteamCode now a) (requestSteamCode 100000 (initialApp None))
            [100500, 159999]) = SEARCHING \<and>
   history (foldl (\<lambda>a now. requestSteamCode now a) (requestSteamCode 100000 (initialApp None))
            [100500, 159999]) = [] \<and>
   lookups (foldl (\<lambda>a now. requestSteamCode now a) (requestSteamCode 100000 (initialApp None))
            [100500, 159999]) = [(0, 100000)] \<and>
   notification (foldl (\<lambda>a now. requestSteamCode now a)
            (requestSteamCode 100000 (initialApp None)) [100500, 159999]) = RateLimitedMsg"
proof -
  have h: "\<forall>now \<in> set [100500, 159999].
      now - lastRequestTime (requestSteamCode 100000 (initialApp None)) < 60000"
    by (simp add: requestSteamCode_def initialApp_def prim_eqs Let_def)
  have "state (requestSteamCode 100000 (initialApp None)) = SEARCHING"
       "history (requestSteamCode 100000 (initialApp None)) = []"
       "lookups (requestSteamCode 100000 (initialApp None)) = [(0, 100000)]"
    by (simp_all add: requestSteamCode_def initialApp_def prim_eqs Let_def)
  with h rate_limited_requests_only_notify [OF h] show ?thesis
    by (simp add: Let_def)
qed



section \<open>A lookup that settles within the budget\<close>

text \<open>
  Claim C7. After an accepted request at \<open>t0\<close> and any ticks that see less than 45000 ms
  elapsed, a lookup that resolves with code \<open>c\<close> and search time \<open>d\<close> leaves the state
  \<open>FOUND\<close>, the progress 100, the current code \<open>c\<close>, and a success entry with code \<open>c\<close>
  and search time \<open>d\<close> in front of the history the request started from.
\<close>

theorem lookup_success_before_budget:
  assumes "canRequestCode t0 s0" and "state s0 \<noteq> SEARCHING"
    and "\<forall>t \<in> set ts. t - t0 < 45000"
    and "simulateSearch r1 r2 rs = Inr (c, d)"
  shows "let s1 = requestSteamCode t0 s0;
             s2 = foldl (\<lambda>a t. requestSteamCode_tick t0 t a) s1 ts;
             s3 = requestSteamCode_resolved (c, d) now s2
         in state s1 = SEARCHING \<and> state s2 = SEARCHING \<and>
            state s3 = FOUND \<and> progress s3 = 100 \<and> currentCode s3 = c \<and>
            history s3 = \<lparr>id_field = toString now, code = c, timestamp = now,
                           status = success, searchTime = d\<rparr> # take 9 (history s0)"
proof -
  let ?s1 = "requestSteamCode t0 s0"
  let ?s2 = "foldl (\<lambda>a t. requestSteamCode_tick t0 t a) ?s1 ts"
  from early_ticks [OF assms(3)] obtain p r where
    e: "?s2 = ?s1\<lparr>progress := p, timeRemaining := r\<rparr>" by blast
  have "state ?s2 = SEARCHING" "history ?s2 = history s0"
    using accepted_request [OF assms(1,2)] by (simp_all add: e)
  moreover have "state ?s1 = SEARCHING"
    using accepted_request [OF assms(1,2)] by simp
  ultimately show ?thesis
    using resolved_outcome [of "(c, d)" now ?s2] by (simp add: Let_def)
qed

theorem lookup_success_before_budget_witness:
  "canRequestCode 120000 (initialApp None) \<and> state (initialApp None) \<noteq> SEARCHING \<and>
   120100 - 120000 < (45000 :: int) \<and> 120200 - 120000 < (45000 :: int) \<and>
   simulateSearch (1 / 6) 0 [0, 1 / 36, 29 / 36, 5 / 18, 35 / 36] = Inr (''AB3K9'', 3000) \<and>
   state (requestSteamCode_resolved (''AB3K9'', 3000) 123000
     (foldl (\<lambda>a t. requestSteamCode_tick 120000 t a)
        (requestSteamCode 120000 (initialApp None)) [120100, 120200])) = FOUND \<and>
   currentCode (requestSteamCode_resolved (''AB3K9'', 3000) 123000
     (foldl (\<lambda>a t. requestSteamCode_tick 120000 t a)
        (requestSteamCode 120000 (initialApp None)) [120100, 120200])) = ''AB3K9'' \<and>
   progress (requestSteamCode_resolved (''AB3K9'', 3000) 123000
     (foldl (\<lambda>a t. requestSteamCode_tick 120000 t a)
        (requestSteamCode 120000 (initialApp None)) [120100, 120200])) = 100 \<and>
   history (requestSteamCode_resolved (''AB3K9'', 3000) 123000
     (foldl (\<lambda>a t. requestSteamCode_tick 120000 t a)
        (requestSteamCode 120000 (initialApp None)) [120100, 120200])) =
     [\<lparr>id_field = toString 123000, code = ''AB3K9'', timestamp = 123000, status = success,
       searchTime = 3000\<rparr>]"
proof -
  have h1: "canRequestCode 120000 (initialApp None)"
    by (simp add: canRequestCode_def initialApp_def)
  have h2: "state (initialApp None) \<noteq> SEARCHING"
    by (simp add: initialApp_def)
  have h3: "\<forall>t \<in> set [120100, 120200]. t - 120000 < (45000 :: int)"
    by simp
  have h4: "simulateSearch (1 / 6) 0 [0, 1 / 36, 29 / 36, 5 / 18, 35 / 36] = Inr (''AB3K9'', 3000)"
    by code_simp
  have h5: "history (initialApp None) = []"
    by (simp add: initialApp_def)
  from lookup_success_before_budget [OF h1 h2 h3 h4, of 123000] h1 h2 h3 h4 h5
  show ?thesis by (simp add: Let_def)
qed

text \<open>
  Claim C10. After an accepted request at \<open>t0\<close> and any ticks that see less than 45000 ms
  elapsed, a lookup that rejects leaves the state \<open>ERROR\<close> and puts one entry in front of
  the history the request started from: code \<open>ERROR\<close>, status error, search time 0
  whatever the delay of the lookup was.
\<close>

theorem lookup_failure_before_budget:
  assumes "canRequestCode t0 s0" and "state s0 \<noteq> SEARCHING"
    and "\<forall>t \<in> set ts. t - t0 < 45000"
    and "simulateSearch r1 r2 rs = Inl e"
  shows "let s1 = requestSteamCode t0 s0;
             s2 = foldl (\<lambda>a t. requestSteamCode_tick t0 t a) s1 ts;
             s3 = requestSteamCode_rejected now s2
         in state s2 = SEARCHING \<and> state s3 = ERROR \<and>
            history s3 = \<lparr>id_field = toString now, code = ''ERROR'', timestamp = now,
                           status = error, searchTime = 0\<rparr> # take 9 (history s0)"
proof -
  let ?s1 = "requestSteamCode t0 s0"
  let ?s2 = "foldl (\<lambda>a t. requestSteamCode_tick t0 t a) ?s1 ts"
  from early_ticks [OF assms(3)] obtain p r where
    e: "?s2 = ?s1\<lparr>progress := p, timeRemaining := r\<rparr>" by blast
  have "state ?s2 = SEARCHING" "history ?s2 = history s0"
    using accepted_request [OF assms(1,2)] by (simp_all add: e)
  then show ?thesis
    using rejected_outcome [of now ?s2] by (simp add: Let_def)
qed

theorem lookup_failure_before_budget_witness:
  "canRequestCode 120000 (initialApp None) \<and> state (initialApp None) \<noteq> SEARCHING \<and>
   120100 - 120000 < (45000 :: int) \<and> 120200 - 120000 < (45000 :: int) \<and>
   simulateSearch (1 / 2) (24 / 25) [0, 1 / 36, 29 / 36, 5 / 18, 35 / 36] = Inl LookupError \<and>
   state (requestSteamCode_rejected 125000
     (foldl (\<lambda>a t. requestSteamCode_tick 120000 t a)
        (requestSteamCode 120000 (initialApp None)) [120100, 120200])) = ERROR \<and>
   history (requestSteamCode_rejected 125000
     (foldl (\<lambda>a t. requestSteamCode_tick 120000 t a)
        (requestSteamCode 120000 (initialApp None)) [120100, 120200])) =
     [\<lparr>id_field = toString 125000, code = ''ERROR'', timestamp = 125000, status = error,
       searchTime = 0\<rparr>]"
proof -
  have h1: "canRequestCode 120000 (initialApp None)"
    by (simp add: canRequestCode_def initialApp_def)
  have h2: "state (initialApp None) \<noteq> SEARCHING"
    by (simp add: initialApp_def)
  have h3: "\<forall>t \<in> set [120100, 120200]. t - 120000 < (45000 :: int)"
    by simp
  have h4: "simulateSearch (1 / 2) (24 / 25) [0, 1 / 36, 29 / 36, 5 / 18, 35 / 36] = Inl LookupError"
    by code_simp
  have h5: "history (initialApp None) = []"
    by (simp add: initialApp_def)
  from lookup_failure_before_budget [OF h1 h2 h3 h4, of 125000] h1 h2 h3 h4 h5
  show ?thesis by (simp add: Let_def)
qed

section \<open>The bounded history\<close>




















section \<open>The budget runs out\<close>

lemma late_tick:
  assumes "45000 \<le> now - startTime"
  shows "state (requestSteamCode_tick startTime now s) = ERROR"
    "history (requestSteamCode_tick startTime now s) =
       \<lparr>id_field = toString now, code = ''TIMEOUT'', timestamp = now, status = error,
        searchTime = 45000\<rparr> # take 9 (history s)"
    "progress (requestSteamCode_tick startTime now s) = 100"
    "timeRemaining (requestSteamCode_tick startTime now s) = 0"
    "notification (requestSteamCode_tick startTime now s) = TimeoutMsg"
proof -
  from assms have "45 \<le> (now - startTime) div 1000" by arith
  then have r: "max (45 - (now - startTime) div 1000) 0 = 0" by simp
  from assms have "(1 :: rat) \<le> of_int (now - startTime) / 45000"
    by simp
  then have p: "min (of_int (now - startTime) / 45000 * 100) (100 :: rat) = 100"
    by simp
  show "state (requestSteamCode_tick startTime now s) = ERROR"
    "history (requestSteamCode_tick startTime now s) =
       \<lparr>id_field = toString now, code = ''TIMEOUT'', timestamp = now, status = error,
        searchTime = 45000\<rparr> # take 9 (history s)"
    "progress (requestSteamCode_tick startTime now s) = 100"
    "timeRemaining (requestSteamCode_tick startTime now s) = 0"
    "notification (requestSteamCode_tick startTime now s) = TimeoutMsg"
    unfolding requestSteamCode_tick_def Let_def r p
    by (simp_all add: prim_eqs)
qed

lemma guard_after_tick:
  assumes "45000 \<le> now - startTime"
  shows "state (requestSteamCode_timeout (requestSteamCode_tick startTime now s)) = ERROR \<and>
         history (requestSteamCode_timeout (requestSteamCode_tick startTime now s)) =
           \<lparr>id_field = toString now, code = ''TIMEOUT'', timestamp = now, status = error,
            searchTime = 45000\<rparr> # take 9 (history s)"
  using late_tick(2) [OF assms, of s]
  by (simp add: requestSteamCode_timeout_def clearTimer_eq)

lemmas trace_defs = run_def fire_def settle_def unit_draw_def searchDelay_def
  handler_defs prim_eqs initialApp_def Let_def

lemma draws_AB3K9:
  "simulateSearch (1 / 6) 0 [0, 1 / 36, 29 / 36, 5 / 18, 35 / 36] = Inr (''AB3K9'', 3000)"
  by code_simp

lemma draws_failure:
  "simulateSearch (1 / 2) (24 / 25) [0, 1 / 36, 29 / 36, 5 / 18, 35 / 36] = Inl LookupError"
  by code_simp

text \<open>
  Claim C1, as the code has it. The code keeps no token of the request a completion
  belongs to, so a completion that arrives after the tick that saw the budget elapsed
  (state \<open>ERROR\<close>, timeout entry appended) is applied like any other: a resolved lookup
  sets \<open>FOUND\<close>, the code and progress 100 and puts a success entry in front of the timeout
  entry; a rejected lookup leaves \<open>ERROR\<close> and puts an \<open>ERROR\<close> entry in front of it.
\<close>

theorem late_completion_after_timeout_is_applied:
  assumes "45000 \<le> now - startTime"
  shows "let s1 = requestSteamCode_tick startTime now s;
             s2 = requestSteamCode_resolved (c, d) now' s1;
             s3 = requestSteamCode_rejected now' s1
         in state s1 = ERROR \<and>
            history s1 = \<lparr>id_field = toString now, code = ''TIMEOUT'', timestamp = now,
                           status = error, searchTime = 45000\<rparr> # take 9 (history s) \<and>
            state s2 = FOUND \<and> currentCode s2 = c \<and> progress s2 = 100 \<and>
            history s2 = \<lparr>id_field = toString now', code = c, timestamp = now',
                           status = success, searchTime = d\<rparr> #
                         \<lparr>id_field = toString now, code = ''TIMEOUT'', timestamp = now,
                           status = error, searchTime = 45000\<rparr> # take 8 (history s) \<and>
            state s3 = ERROR \<and>
            history s3 = \<lparr>id_field = toString now', code = ''ERROR'', timestamp = now',
                           status = error, searchTime = 0\<rparr> #
                         \<lparr>id_field = toString now, code = ''TIMEOUT'', timestamp = now,
                           status = error, searchTime = 45000\<rparr> # take 8 (history s)"
  using late_tick(1,2) [OF assms, of s]
    resolved_outcome [of "(c, d)" now' "requestSteamCode_tick startTime now s"]
    rejected_outcome [of now' "requestSteamCode_tick startTime now s"]
  by (simp add: Let_def)

theorem late_completion_after_timeout_is_applied_witness:
  "(45000 :: int) \<le> 145000 - 100000 \<and>
   state (requestSteamCode_tick 100000 145000 (requestSteamCode 100000 (initialApp None))) = ERROR \<and>
   state (requestSteamCode_resolved (''AB3K9'', 3000) 145001
     (requestSteamCode_tick 100000 145000 (requestSteamCode 100000 (initialApp None)))) = FOUND \<and>
   length (history (requestSteamCode_resolved (''AB3K9'', 3000) 145001
     (requestSteamCode_tick 100000 145000 (requestSteamCode 100000 (initialApp None))))) = 2 \<and>
   length (history (requestSteamCode_rejected 145001
     (requestSteamCode_tick 100000 145000 (requestSteamCode 100000 (initialApp None))))) = 2"
proof -
  have h: "(45000 :: int) \<le> 145000 - 100000" by simp
  have e: "history (requestSteamCode 100000 (initialApp None)) = []"
    by (simp add: requestSteamCode_def initialApp_def prim_eqs Let_def)
  from late_completion_after_timeout_is_applied
    [OF h, of "requestSteamCode 100000 (initialApp None)" "''AB3K9''" 3000 145001]
  show ?thesis by (simp add: Let_def e)
qed

text \<open>
  The sentence of the specification, that such a completion changes neither the state nor
  the history, fails on this run: the tab is suspended after the request, the first tick
  runs 45 seconds late and records the timeout, then the lookup, long due, resolves.
\<close>

theorem late_completion_overwrites_timeout_error:
  "state (run [ClickRequest 100000, Fire 1 145000] (initialApp None)) = ERROR \<and>
   map code (history (run [ClickRequest 100000, Fire 1 145000] (initialApp None))) = [''TIMEOUT''] \<and>
   state (run [ClickRequest 100000, Fire 1 145000,
               Settle 0 (1 / 6) 0 [0, 1 / 36, 29 / 36, 5 / 18, 35 / 36] 145001]
            (initialApp None)) = FOUND \<and>
   map code (history (run [ClickRequest 100000, Fire 1 145000,
               Settle 0 (1 / 6) 0 [0, 1 / 36, 29 / 36, 5 / 18, 35 / 36] 145001]
            (initialApp None))) = [''AB3K9'', ''TIMEOUT'']"
  by (simp add: trace_defs draws_AB3K9)


section \<open>Reset\<close>

lemma reset_outcome:
  "state (resetInterface s) = IDLE \<and> currentCode (resetInterface s) = [] \<and>
   progress (resetInterface s) = 0 \<and> timeRemaining (resetInterface s) = 0 \<and>
   lastRequestTime (resetInterface s) = lastRequestTime s \<and>
   history (resetInterface s) = history s \<and> storage (resetInterface s) = storage s \<and>
   (intervalRef s = Some i \<or> timeoutRef s = Some i \<longrightarrow>
      map_of (timers (resetInterface s)) i = None)"
  by (auto simp: resetInterface_def prim_eqs Let_def map_of_eq_None_iff
      split: option.splits)

text \<open>
  Claim C2, at a run where it fails. \<open>resetInterface\<close> clears the two timers whose ids
  the refs hold (\<open>reset_outcome\<close>). The id of the \<open>setTimeout\<close> of 30000 ms is not kept
  anywhere, so a reset in \<open>FOUND\<close> leaves that timer pending, and when it fires the state
  goes from \<open>IDLE\<close> to \<open>SUCCESS\<close>.
\<close>

theorem reset_leaves_auto_expire_pending:
  "state (run [ClickRequest 100000,
               Settle 0 (1 / 6) 0 [0, 1 / 36, 29 / 36, 5 / 18, 35 / 36] 103000]
            (initialApp None)) = FOUND \<and>
   state (run [ClickRequest 100000,
               Settle 0 (1 / 6) 0 [0, 1 / 36, 29 / 36, 5 / 18, 35 / 36] 103000,
               ClickReset] (initialApp None)) = IDLE \<and>
   timers (run [ClickRequest 100000,
               Settle 0 (1 / 6) 0 [0, 1 / 36, 29 / 36, 5 / 18, 35 / 36] 103000,
               ClickReset] (initialApp None)) =
     [(3, ClearNotification, 106000), (4, AutoExpire, 133000)] \<and>
   state (run [ClickRequest 100000,
               Settle 0 (1 / 6) 0 [0, 1 / 36, 29 / 36, 5 / 18, 35 / 36] 103000,
               ClickReset, Fire 4 133000] (initialApp None)) = SUCCESS"
  by (simp add: trace_defs draws_AB3K9)

section \<open>Leaving \<open>SUCCESS\<close> and \<open>ERROR\<close>\<close>

text \<open>
  Claim C8, as the code has it. The guard of \<open>requestSteamCode\<close> on the state excludes
  \<open>SEARCHING\<close> only. In \<open>SUCCESS\<close> or \<open>ERROR\<close> a request leaves the state as it is while
  the cooldown lasts (only the refusal is notified); once more than 60 seconds have
  passed since the last issuance it moves the state to \<open>SEARCHING\<close>. Reset moves it to
  \<open>IDLE\<close>; the history toggle keeps it.
\<close>

theorem settled_states_leave_on_request_after_cooldown:
  assumes "state s = SUCCESS \<or> state s = ERROR"
  shows "(\<not> canRequestCode now s \<longrightarrow>
            state (requestSteamCode now s) = state s \<and> onlyNotified s (requestSteamCode now s)) \<and>
         (canRequestCode now s \<longrightarrow>
            state (requestSteamCode now s) = SEARCHING \<and>
            lastRequestTime (requestSteamCode now s) = now) \<and>
         state (resetInterface s) = IDLE \<and>
         state (step ToggleHistory s) = state s"
proof -
  from assms have n: "state s \<noteq> SEARCHING" by auto
  have a: "\<not> canRequestCode now s \<longrightarrow>
            state (requestSteamCode now s) = state s \<and> onlyNotified s (requestSteamCode now s)"
  proof
    assume r: "\<not> canRequestCode now s"
    then have o: "onlyNotified s (requestSteamCode now s)" by (simp add: refused_request)
    then have "core (requestSteamCode now s) = core s" by (simp add: onlyNotified_def)
    from core_fields(1) [OF this] o
    show "state (requestSteamCode now s) = state s \<and> onlyNotified s (requestSteamCode now s)"
      by simp
  qed
  have b: "canRequestCode now s \<longrightarrow>
            state (requestSteamCode now s) = SEARCHING \<and>
            lastRequestTime (requestSteamCode now s) = now"
    using accepted_request(1,5) [OF _ n, of now] by simp
  have c: "state (resetInterface s) = IDLE" "state (step ToggleHistory s) = state s"
    by (simp_all add: resetInterface_def prim_eqs Let_def)
  from a b c show ?thesis by blast
qed

theorem settled_states_leave_on_request_after_cooldown_witness:
  "(state (requestSteamCode_rejected 105000 (requestSteamCode 100000 (initialApp None))) = SUCCESS \<or>
    state (requestSteamCode_rejected 105000 (requestSteamCode 100000 (initialApp None))) = ERROR) \<and>
   \<not> canRequestCode 130000
       (requestSteamCode_rejected 105000 (requestSteamCode 100000 (initialApp None))) \<and>
   state (requestSteamCode 130000
       (requestSteamCode_rejected 105000 (requestSteamCode 100000 (initialApp None)))) = ERROR \<and>
   canRequestCode 165001
       (requestSteamCode_rejected 105000 (requestSteamCode 100000 (initialApp None))) \<and>
   state (requestSteamCode 165001
       (requestSteamCode_rejected 105000 (requestSteamCode 100000 (initialApp None)))) = SEARCHING"
proof -
  let ?s = "requestSteamCode_rejected 105000 (requestSteamCode 100000 (initialApp None))"
  have e: "state ?s = ERROR"
    by (simp add: rejected_outcome)
  then have h: "state ?s = SUCCESS \<or> state ?s = ERROR" by simp
  have l: "lastRequestTime ?s = 100000"
    by (simp add: requestSteamCode_rejected_def requestSteamCode_def initialApp_def prim_eqs Let_def)
  have c1: "\<not> canRequestCode 130000 ?s" and c2: "canRequestCode 165001 ?s"
    by (simp_all add: canRequestCode_def l)
  from settled_states_leave_on_request_after_cooldown [OF h, of 130000]
    settled_states_leave_on_request_after_cooldown [OF h, of 165001] e c1 c2
  show ?thesis by simp
qed

text \<open>
  The sentence of the specification, that a request leaves \<open>ERROR\<close> unchanged, fails on
  this run: the lookup rejects five seconds after the request, and a second request
  sixty-five seconds after the first is accepted.
\<close>

theorem request_leaves_error_after_cooldown:
  "state (run [ClickRequest 100000,
               Settle 0 (1 / 2) (24 / 25) [0, 1 / 36, 29 / 36, 5 / 18, 35 / 36] 105000]
            (initialApp None)) = ERROR \<and>
   state (run [ClickRequest 100000,
               Settle 0 (1 / 2) (24 / 25) [0, 1 / 36, 29 / 36, 5 / 18, 35 / 36] 105000,
               ClickRequest 165001] (initialApp None)) = SEARCHING"
  by (simp add: trace_defs draws_failure)

section \<open>Loading the stored history\<close>

text \<open>
  Claim C3, as the code has it. With nothing stored, or the empty string stored, the
  mount effect leaves the initial state with its empty history. A stored text that
  \<open>JSON.parse\<close> rejects makes the effect raise \<open>SyntaxError\<close>: nothing catches it and no
  empty log is put in its place.
\<close>

theorem load_missing_is_empty_unparsable_raises:
  "(st = None \<or> st = Some (Unparsable []) \<longrightarrow>
      loadHistory (initialApp st) = Inr (initialApp st) \<and> history (initialApp st) = []) \<and>
   (t \<noteq> [] \<longrightarrow> loadHistory (initialApp (Some (Unparsable t))) = Inl SyntaxError)"
  by (auto simp: loadHistory_def initialApp_def)

theorem load_missing_is_empty_unparsable_raises_witness:
  "loadHistory (initialApp None) = Inr (initialApp None) \<and> history (initialApp None) = [] \<and>
   ''{oops'' \<noteq> [] \<and> loadHistory (initialApp (Some (Unparsable ''{oops''))) = Inl SyntaxError"
  using load_missing_is_empty_unparsable_raises [of None "''{oops''"] by simp

text \<open>
  The sentence of the specification, that a text that fails to parse gives an empty log,
  fails on this stored text.
\<close>

theorem load_unparsable_raises:
  "loadHistory (initialApp (Some (Unparsable ''{oops''))) = Inl SyntaxError"
  by (simp add: loadHistory_def initialApp_def)

end
